theory Spec2Isabelle
  imports Complex_Main
begin

section \<open>Values exchanged with the collaborators\<close>

text \<open>
  Both collaborators answer with JSON, which \<open>response.json()\<close> turns into Python
  values: \<open>None\<close>, booleans, numbers, strings, lists and dictionaries. Numbers are
  kept as exact rationals; Python's floats round, which this development does not follow.
  A dictionary is an association list read with \<open>map_of\<close>.
\<close>

datatype json =
    JNull
  | JBool bool
  | JNum rat
  | JStr string
  | JArr "json list"
  | JObj "(string \<times> json) list"

datatype exn =
    KeyError
  | TypeError
  | AttributeError
  | IndexError
  | OverflowError
  | ValueError

text \<open>Sequencing of steps that may raise: the first exception ends the evaluation.\<close>

fun bind_exn :: "exn + 'a \<Rightarrow> ('a \<Rightarrow> exn + 'b) \<Rightarrow> exn + 'b" where
  "bind_exn (Inl e) f = Inl e"
| "bind_exn (Inr x) f = f x"

text \<open>Python's truth value of a decoded JSON value (\<open>if not details\<close>, \<open>if route_weather\<close>).\<close>

fun truthy :: "json \<Rightarrow> bool" where
  "truthy JNull = False"
| "truthy (JBool b) = b"
| "truthy (JNum x) = (x \<noteq> 0)"
| "truthy (JStr s) = (s \<noteq> [])"
| "truthy (JArr xs) = (xs \<noteq> [])"
| "truthy (JObj kvs) = (kvs \<noteq> [])"

text \<open>\<open>d[k]\<close> on a dictionary: a missing key raises.\<close>

definition dict_item :: "(string \<times> json) list \<Rightarrow> string \<Rightarrow> exn + json" where
  "dict_item d k = (case map_of d k of None \<Rightarrow> Inl KeyError | Some v \<Rightarrow> Inr v)"

text \<open>\<open>d.get(k, default)\<close> on a dictionary.\<close>

definition dict_get :: "(string \<times> json) list \<Rightarrow> string \<Rightarrow> json \<Rightarrow> json" where
  "dict_get d k dflt = (case map_of d k of None \<Rightarrow> dflt | Some v \<Rightarrow> v)"

text \<open>\<open>v[k]\<close> with a string key on any value: only a dictionary can be read this way.\<close>

fun item_key :: "json \<Rightarrow> string \<Rightarrow> exn + json" where
  "item_key (JObj d) k = dict_item d k"
| "item_key _ k = Inl TypeError"

text \<open>
  \<open>v[0]\<close> on any value. A decoded dictionary has string keys only, so the key \<open>0\<close>
  is missing from it.
\<close>

fun item_first :: "json \<Rightarrow> exn + json" where
  "item_first (JArr xs) = (case xs of [] \<Rightarrow> Inl IndexError | x # _ \<Rightarrow> Inr x)"
| "item_first (JStr s) = (case s of [] \<Rightarrow> Inl IndexError | c # _ \<Rightarrow> Inr (JStr [c]))"
| "item_first (JObj d) = Inl KeyError"
| "item_first _ = Inl TypeError"

text \<open>\<open>v.get(k, default)\<close> on any value: only a dictionary has the method.\<close>

fun get_key :: "json \<Rightarrow> string \<Rightarrow> json \<Rightarrow> exn + json" where
  "get_key (JObj d) k dflt = Inr (dict_get d k dflt)"
| "get_key _ k dflt = Inl AttributeError"

text \<open>Numbers in arithmetic: \<open>bool\<close> is a subclass of \<open>int\<close>, anything else is a type error.\<close>

fun num_of :: "json \<Rightarrow> exn + rat" where
  "num_of (JNum x) = Inr x"
| "num_of (JBool b) = Inr (if b then 1 else 0)"
| "num_of _ = Inl TypeError"

section \<open>Dates and times\<close>

text \<open>
  A \<open>datetime\<close> is represented by the instant it denotes, in seconds since the epoch; the
  process's zone is taken to be UTC, so that \<open>fromtimestamp\<close> and \<open>timestamp\<close> are
  inverse on the range below and \<open>date()\<close> is the whole number of days since the epoch.
  \<open>datetime\<close> covers the years 1 to 9999; \<open>fromtimestamp\<close> raises outside of them.
\<close>

type_synonym datetime = rat

definition datetime_min :: rat where
  "datetime_min = - 62135596800"

definition datetime_max :: rat where
  "datetime_max = 253402300800"

definition fromtimestamp :: "json \<Rightarrow> exn + datetime" where
  "fromtimestamp j =
     (case num_of j of
        Inl e \<Rightarrow> Inl e
      | Inr x \<Rightarrow> if datetime_min \<le> x \<and> x < datetime_max then Inr x else Inl OverflowError)"

definition date_of :: "datetime \<Rightarrow> int" where
  "date_of t = \<lfloor>t / 86400\<rfloor>"

text \<open>\<open>int(t.timestamp())\<close>: \<open>int\<close> drops the fraction, towards zero.\<close>

definition int_timestamp :: "datetime \<Rightarrow> int" where
  "int_timestamp t = (if 0 \<le> t then \<lfloor>t\<rfloor> else \<lceil>t\<rceil>)"

section \<open>The collector's surroundings and state\<close>

datatype request =
    WeatherReq rat rat int
  | DetailReq json
  | BoardReq string int

text \<open>
  What \<open>FlightDataCollector\<close> reads but does not own. \<open>registry\<close> is
  \<open>INDIAN_AIRPORTS\<close>, imported from a module that is not part of the sources at hand:
  an ordered dictionary from airport code to a dictionary of coordinates. The three
  \<open>_http\<close> fields are the collaborators, each applied to the number of requests made so
  far and to what the request carries; \<open>None\<close> stands for \<open>requests.get\<close> or
  \<open>response.json()\<close> raising. \<open>py_repr\<close> is Python's \<open>str\<close> on a value that is not a
  string and \<open>date_str\<close> its \<open>str\<close> on a date.
\<close>

record env =
  registry :: "(string \<times> (string \<times> rat) list) list"
  weather_http :: "nat \<Rightarrow> rat \<Rightarrow> rat \<Rightarrow> int \<Rightarrow> json option"
  detail_http :: "nat \<Rightarrow> json \<Rightarrow> json option"
  board_http :: "nat \<Rightarrow> string \<Rightarrow> int \<Rightarrow> json option"
  py_repr :: "json \<Rightarrow> string"
  date_str :: "int \<Rightarrow> string"

text \<open>
  The dictionary that \<open>process_flight\<close> returns, one field per key. What is copied from
  a collaborator's answer keeps the type it has there; \<open>None\<close> is \<open>JNull\<close>.
\<close>

record flight_record =
  flight_number :: json
  airline :: json
  origin :: json
  destination :: string
  scheduled_departure :: datetime
  actual_departure :: datetime
  scheduled_arrival :: datetime
  actual_arrival :: datetime
  delay_minutes :: rat
  aircraft :: json
  route_weather :: json
  route_weather_desc :: json
  route_temp :: json
  route_wind :: json

text \<open>
  What a run changes: \<open>self.weather_cache\<close>, the requests sent so far, oldest first,
  and the file written at the end.
\<close>

record state =
  weather_cache :: "string \<rightharpoonup> json"
  http_log :: "request list"
  saved :: "(string \<times> flight_record list) option"

definition py_str :: "env \<Rightarrow> json \<Rightarrow> string" where
  "py_str E j = (case j of JStr s \<Rightarrow> s | _ \<Rightarrow> py_repr E j)"

definition sent :: "state \<Rightarrow> request \<Rightarrow> state" where
  "sent s r = s\<lparr>http_log := http_log s @ [r]\<rparr>"

section \<open>The route midpoint\<close>

record midpoint =
  lat :: rat
  lon :: rat

text \<open>
  \<open>INDIAN_AIRPORTS.get(code, {})\<close>: a list or a dictionary cannot be hashed, every other
  value that is not one of the registry's codes gives the empty dictionary.
\<close>

fun registry_get :: "env \<Rightarrow> json \<Rightarrow> exn + (string \<times> rat) list" where
  "registry_get E (JStr c) = Inr (case map_of (registry E) c of None \<Rightarrow> [] | Some a \<Rightarrow> a)"
| "registry_get E (JArr xs) = Inl TypeError"
| "registry_get E (JObj d) = Inl TypeError"
| "registry_get E _ = Inr []"

definition coord :: "(string \<times> rat) list \<Rightarrow> string \<Rightarrow> rat" where
  "coord a k = (case map_of a k of None \<Rightarrow> 0 | Some x \<Rightarrow> x)"

definition get_midpoint :: "env \<Rightarrow> json \<Rightarrow> json \<Rightarrow> exn + midpoint" where
  "get_midpoint E origin_icao dest_icao =
     (case registry_get E origin_icao of
        Inl e \<Rightarrow> Inl e
      | Inr orig \<Rightarrow>
          (case registry_get E dest_icao of
             Inl e \<Rightarrow> Inl e
           | Inr dest \<Rightarrow>
               Inr \<lparr>lat = (coord orig ''lat'' + coord dest ''lat'') / 2,
                    lon = (coord orig ''lon'' + coord dest ''lon'') / 2\<rparr>))"

section \<open>The weather lookup\<close>

definition cache_key :: "env \<Rightarrow> json \<Rightarrow> json \<Rightarrow> datetime \<Rightarrow> string" where
  "cache_key E orig dest flight_time =
     py_str E orig @ ''-'' @ py_str E dest @ ''-'' @ date_str E (date_of flight_time)"

text \<open>
  \<open>get_route_weather\<close> returns the cached value when the key is there. Otherwise
  everything happens inside \<open>try\<close>: the midpoint is computed, the request is sent, and its
  decoded answer is stored and returned; any exception gives \<open>None\<close>, here \<open>JNull\<close>.
\<close>

definition get_route_weather :: "env \<Rightarrow> json \<Rightarrow> json \<Rightarrow> datetime \<Rightarrow> state \<Rightarrow> json \<times> state" where
  "get_route_weather E orig dest flight_time s =
     (let k = cache_key E orig dest flight_time in
      case weather_cache s k of
        Some v \<Rightarrow> (v, s)
      | None \<Rightarrow>
          (case get_midpoint E orig dest of
             Inl e \<Rightarrow> (JNull, s)
           | Inr m \<Rightarrow>
               (let dt = int_timestamp flight_time;
                    s' = sent s (WeatherReq (lat m) (lon m) dt)
                in case weather_http E (length (http_log s)) (lat m) (lon m) dt of
                     None \<Rightarrow> (JNull, s')
                   | Some weather_data \<Rightarrow>
                       (weather_data, s'\<lparr>weather_cache := (weather_cache s')(k \<mapsto> weather_data)\<rparr>))))"

section \<open>Flight details\<close>

text \<open>
  \<open>get_flight_details\<close> sends one request. A failed request, and an answer that is not a
  dictionary (it has no \<open>get\<close>), both end in the handler, which returns \<open>None\<close>.
\<close>

definition get_flight_details :: "env \<Rightarrow> json \<Rightarrow> state \<Rightarrow> json \<times> state" where
  "get_flight_details E flight_id s =
     (let s' = sent s (DetailReq flight_id) in
      case detail_http E (length (http_log s)) flight_id of
        None \<Rightarrow> (JNull, s')
      | Some response \<Rightarrow>
          (case get_key response ''FlightInfoStatusResult'' (JObj []) of
             Inl e \<Rightarrow> (JNull, s')
           | Inr details \<Rightarrow> (details, s')))"

section \<open>Normalising one flight\<close>

text \<open>
  The four weather entries of the returned dictionary. Each one reads the observation
  only when it is true as a condition, and has a fixed value otherwise.
\<close>

definition current_weather :: "json \<Rightarrow> exn + json" where
  "current_weather rw =
     bind_exn (item_key rw ''current'') (\<lambda>c.
     bind_exn (item_key c ''weather'') item_first)"

definition weather_main :: "json \<Rightarrow> exn + json" where
  "weather_main rw =
     (if truthy rw then bind_exn (current_weather rw) (\<lambda>w. item_key w ''main'')
      else Inr (JStr ''Unknown''))"

definition weather_desc :: "json \<Rightarrow> exn + json" where
  "weather_desc rw =
     (if truthy rw then bind_exn (current_weather rw) (\<lambda>w. item_key w ''description'')
      else Inr (JStr ''Unknown''))"

definition weather_temp :: "json \<Rightarrow> exn + json" where
  "weather_temp rw =
     (if truthy rw then bind_exn (item_key rw ''current'') (\<lambda>c. item_key c ''temp'')
      else Inr JNull)"

definition weather_wind :: "json \<Rightarrow> exn + json" where
  "weather_wind rw =
     (if truthy rw then bind_exn (item_key rw ''current'') (\<lambda>c. item_key c ''wind_speed'')
      else Inr JNull)"

text \<open>\<open>(flight['actualarrivaltime'] - flight['estimatedarrivaltime']) / 60\<close>\<close>

definition delay_of :: "(string \<times> json) list \<Rightarrow> exn + rat" where
  "delay_of flight =
     bind_exn (dict_item flight ''actualarrivaltime'') (\<lambda>a.
     bind_exn (dict_item flight ''estimatedarrivaltime'') (\<lambda>b.
     bind_exn (num_of a) (\<lambda>x.
     bind_exn (num_of b) (\<lambda>y. Inr ((x - y) / 60)))))"

text \<open>
  The dictionary display that \<open>process_flight\<close> returns: its entries are evaluated from
  top to bottom, and the first one that raises ends the evaluation.
\<close>

definition assemble ::
  "(string \<times> json) list \<Rightarrow> string \<Rightarrow> json \<Rightarrow> datetime \<Rightarrow> json \<Rightarrow> exn + flight_record" where
  "assemble flight airport_icao details departure_time rw =
     bind_exn (dict_item flight ''ident'') (\<lambda>ident.
     bind_exn (get_key details ''origin'' JNull) (\<lambda>orig.
     bind_exn (bind_exn (get_key details ''actualdeparturetime'' (JNum 0)) fromtimestamp) (\<lambda>adep.
     bind_exn (bind_exn (dict_item flight ''estimatedarrivaltime'') fromtimestamp) (\<lambda>sarr.
     bind_exn (bind_exn (dict_item flight ''actualarrivaltime'') fromtimestamp) (\<lambda>aarr.
     bind_exn (delay_of flight) (\<lambda>delay.
     bind_exn (weather_main rw) (\<lambda>wmain.
     bind_exn (weather_desc rw) (\<lambda>wdesc.
     bind_exn (weather_temp rw) (\<lambda>wtemp.
     bind_exn (weather_wind rw) (\<lambda>wwind.
       Inr \<lparr>flight_number = ident,
            airline = dict_get flight ''operator'' (JStr ''Unknown''),
            origin = orig,
            destination = airport_icao,
            scheduled_departure = departure_time,
            actual_departure = adep,
            scheduled_arrival = sarr,
            actual_arrival = aarr,
            delay_minutes = delay,
            aircraft = dict_get flight ''aircrafttype'' (JStr ''Unknown''),
            route_weather = wmain,
            route_weather_desc = wdesc,
            route_temp = wtemp,
            route_wind = wwind\<rparr>))))))))))"

text \<open>
  What \<open>process_flight\<close> does once it holds details that are true as a condition: the two
  times, the weather lookup at the middle of the flight, the dictionary. The lookup
  changes the state also when a later entry raises.
\<close>

definition enrich ::
  "env \<Rightarrow> (string \<times> json) list \<Rightarrow> string \<Rightarrow> json \<Rightarrow> state \<Rightarrow> (exn + flight_record) \<times> state" where
  "enrich E flight airport_icao details s =
     (case bind_exn (get_key details ''filed_departuretime'' (JNum 0)) fromtimestamp of
        Inl e \<Rightarrow> (Inl e, s)
      | Inr departure_time \<Rightarrow>
          (case bind_exn (dict_item flight ''actualarrivaltime'') fromtimestamp of
             Inl e \<Rightarrow> (Inl e, s)
           | Inr arrival_time \<Rightarrow>
               (case get_key details ''origin'' JNull of
                  Inl e \<Rightarrow> (Inl e, s)
                | Inr orig \<Rightarrow>
                    (case get_route_weather E orig (JStr airport_icao)
                            (departure_time + (arrival_time - departure_time) / 2) s of
                       (rw, s') \<Rightarrow>
                         (assemble flight airport_icao details departure_time rw, s')))))"

text \<open>The body of \<open>try\<close> in \<open>process_flight\<close>: it raises, or returns \<open>None\<close> or a record.\<close>

definition process_flight_try ::
  "env \<Rightarrow> (string \<times> json) list \<Rightarrow> string \<Rightarrow> state \<Rightarrow> (exn + flight_record option) \<times> state" where
  "process_flight_try E flight airport_icao s =
     (case dict_item flight ''ident'' of
        Inl e \<Rightarrow> (Inl e, s)
      | Inr ident \<Rightarrow>
          (case get_flight_details E ident s of
             (details, s1) \<Rightarrow>
               if \<not> truthy details then (Inr None, s1)
               else (case enrich E flight airport_icao details s1 of
                       (Inl e, s2) \<Rightarrow> (Inl e, s2)
                     | (Inr r, s2) \<Rightarrow> (Inr (Some r), s2))))"

text \<open>
  \<open>process_flight\<close> on a board entry that is a dictionary: the handler prints and returns
  \<open>None\<close>.
\<close>

definition process_flight ::
  "env \<Rightarrow> (string \<times> json) list \<Rightarrow> string \<Rightarrow> state \<Rightarrow> flight_record option \<times> state" where
  "process_flight E flight airport_icao s =
     (case process_flight_try E flight airport_icao s of
        (Inl e, s') \<Rightarrow> (None, s')
      | (Inr r, s') \<Rightarrow> (r, s'))"

section \<open>Collecting\<close>

text \<open>What a \<open>for\<close> loop goes through: the items of a list, the keys of a dictionary, the
  characters of a string; nothing else can be iterated.\<close>

fun py_iter :: "json \<Rightarrow> exn + json list" where
  "py_iter (JArr xs) = Inr xs"
| "py_iter (JObj d) = Inr (map (\<lambda>kv. JStr (fst kv)) d)"
| "py_iter (JStr s) = Inr (map (\<lambda>c. JStr [c]) s)"
| "py_iter _ = Inl TypeError"

text \<open>
  The inner loop of \<open>collect_data\<close>, with the records appended so far. An entry that is
  not a dictionary makes \<open>flight['ident']\<close> raise inside \<open>process_flight\<close> and then
  \<open>flight.get\<close> raise in its handler: that exception leaves the loop for the airport's
  handler, and what was appended before stays.
\<close>

fun process_flights ::
  "env \<Rightarrow> string \<Rightarrow> json list \<Rightarrow> flight_record list \<times> state \<Rightarrow> flight_record list \<times> state" where
  "process_flights E icao [] (all_flights, s) = (all_flights, s)"
| "process_flights E icao (JObj flight # rest) (all_flights, s) =
     (case process_flight E flight icao s of
        (None, s') \<Rightarrow> process_flights E icao rest (all_flights, s')
      | (Some processed, s') \<Rightarrow> process_flights E icao rest (all_flights @ [processed], s'))"
| "process_flights E icao (_ # rest) (all_flights, s) = (all_flights, s)"

definition board_flights :: "json \<Rightarrow> exn + json list" where
  "board_flights response =
     bind_exn (get_key response ''AirportBoardsResult'' (JObj [])) (\<lambda>a.
     bind_exn (get_key a ''arrivals'' (JObj [])) (\<lambda>b.
     bind_exn (get_key b ''flights'' (JArr [])) py_iter))"

text \<open>One round of the outer loop: any exception before the inner loop skips the airport.\<close>

definition collect_airport ::
  "env \<Rightarrow> int \<Rightarrow> string \<Rightarrow> flight_record list \<times> state \<Rightarrow> flight_record list \<times> state" where
  "collect_airport E hours icao acc =
     (case acc of (all_flights, s) \<Rightarrow>
        (let s' = sent s (BoardReq icao hours) in
         case board_http E (length (http_log s)) icao hours of
           None \<Rightarrow> (all_flights, s')
         | Some response \<Rightarrow>
             (case board_flights response of
                Inl e \<Rightarrow> (all_flights, s')
              | Inr flights \<Rightarrow> process_flights E icao flights (all_flights, s'))))"

definition collect_airports ::
  "env \<Rightarrow> int \<Rightarrow> string list \<Rightarrow> flight_record list \<times> state \<Rightarrow> flight_record list \<times> state" where
  "collect_airports E hours icaos acc = fold (collect_airport E hours) icaos acc"

definition collect_data :: "env \<Rightarrow> int \<Rightarrow> string \<Rightarrow> state \<Rightarrow> flight_record list \<times> state" where
  "collect_data E hours filename s =
     (case collect_airports E hours (map fst (registry E)) ([], s) of
        (all_flights, s') \<Rightarrow> (all_flights, s'\<lparr>saved := Some (filename, all_flights)\<rparr>))"

text \<open>The state that \<open>__init__\<close> leaves.\<close>

definition init_state :: state where
  "init_state = \<lparr>weather_cache = Map.empty, http_log = [], saved = None\<rparr>"

section \<open>Training\<close>

text \<open>
  A row of the spreadsheet, as far as \<open>train.py\<close> reads it here: the delay, which is
  missing (\<open>NaN\<close>) in an empty cell, and the other columns together.
\<close>

record 'c sheet_row =
  columns :: 'c
  sheet_delay_minutes :: "rat option"

text \<open>
  A row after \<open>preprocess_data\<close>: the ten feature columns together, and the two columns
  that the models are trained to predict.
\<close>

record 'x row =
  features :: 'x
  arrival_delay :: "rat option"
  is_delayed :: int

text \<open>\<open>(arrival_delay > 15).astype(int)\<close>: a comparison with a missing value is false.\<close>

definition delayed_flag :: "rat option \<Rightarrow> int" where
  "delayed_flag d = (case d of None \<Rightarrow> 0 | Some x \<Rightarrow> if 15 < x then 1 else 0)"

text \<open>
  \<open>preprocess_data\<close>. The features are derived and the label encoders fitted on the whole
  frame, then applied row by row: \<open>fit\<close> stands for these steps, which leave the delay
  alone.
\<close>

definition preprocess_data :: "('c list \<Rightarrow> 'c \<Rightarrow> 'x) \<Rightarrow> 'c sheet_row list \<Rightarrow> 'x row list" where
  "preprocess_data fit df =
     (let encode = fit (map columns df) in
      map (\<lambda>r. \<lparr>features = encode (columns r),
                 arrival_delay = sheet_delay_minutes r,
                 is_delayed = delayed_flag (sheet_delay_minutes r)\<rparr>) df)"

text \<open>
  What \<open>train_models\<close> leaves: the rows each model was fitted on and the rows it was scored
  on. The estimators themselves belong to a library.
\<close>

record 'x fitted =
  clf_train :: "('x \<times> int) list"
  clf_test :: "('x \<times> int) list"
  reg_train :: "('x \<times> rat option) list"
  reg_test :: "('x \<times> rat option) list"

text \<open>
  \<open>train_models\<close>, given the library's \<open>train_test_split\<close> with its fixed proportion and
  seed: \<open>split\<close> gives the training and the test rows, or raises when a part would be
  empty.
\<close>

definition train_models :: "('x row list \<Rightarrow> exn + 'x row list \<times> 'x row list) \<Rightarrow> 'x row list \<Rightarrow> exn + 'x fitted" where
  "train_models split df =
     (case split df of
        Inl e \<Rightarrow> Inl e
      | Inr (c_train, c_test) \<Rightarrow>
          (let delayed = filter (\<lambda>r. is_delayed r = 1) df in
           case split delayed of
             Inl e \<Rightarrow> Inl e
           | Inr (r_train, r_test) \<Rightarrow>
               Inr \<lparr>clf_train = map (\<lambda>r. (features r, is_delayed r)) c_train,
                    clf_test = map (\<lambda>r. (features r, is_delayed r)) c_test,
                    reg_train = map (\<lambda>r. (features r, arrival_delay r)) r_train,
                    reg_test = map (\<lambda>r. (features r, arrival_delay r)) r_test\<rparr>))"

section \<open>Prediction\<close>

text \<open>
  Modelled from the spec: the combined predict operation of the two-stage model, which
  \<open>train.py\<close> does not define (\<open>EnhancedDelayPredictor\<close> trains and saves the two
  estimators and stops there). Following section 4.6: the classifier runs; when it says
  not delayed the estimate is null, otherwise the regressor runs and its estimate is
  returned. The number counts the regressor's invocations.
\<close>

record prediction =
  predicted_delayed :: bool
  estimated_delay_minutes :: "rat option"

definition predict :: "('x \<Rightarrow> bool) \<Rightarrow> ('x \<Rightarrow> rat) \<Rightarrow> 'x \<Rightarrow> nat \<Rightarrow> prediction \<times> nat" where
  "predict clf reg fv invoked =
     (if clf fv
      then (\<lparr>predicted_delayed = True, estimated_delay_minutes = Some (reg fv)\<rparr>, Suc invoked)
      else (\<lparr>predicted_delayed = False, estimated_delay_minutes = None\<rparr>, invoked))"

section \<open>Vocabulary of the properties\<close>

text \<open>
  Requests for an arrivals board; a value that the weather collaborator once answered;
  a cache that holds only such values; a series of weather lookups.
\<close>

fun is_board :: "request \<Rightarrow> bool" where
  "is_board (BoardReq icao hours) = True"
| "is_board _ = False"

definition from_collaborator :: "env \<Rightarrow> request list \<Rightarrow> json \<Rightarrow> bool" where
  "from_collaborator E reqs v \<longleftrightarrow>
     (\<exists>i < length reqs. \<exists>la lo dt. reqs ! i = WeatherReq la lo dt \<and> weather_http E i la lo dt = Some v)"

definition cache_sound :: "env \<Rightarrow> state \<Rightarrow> bool" where
  "cache_sound E s \<longleftrightarrow> (\<forall>k v. weather_cache s k = Some v \<longrightarrow> from_collaborator E (http_log s) v)"

definition route_weather_calls :: "env \<Rightarrow> (json \<times> json \<times> datetime) list \<Rightarrow> state \<Rightarrow> state" where
  "route_weather_calls E calls s =
     fold (\<lambda>c s'. snd (get_route_weather E (fst c) (fst (snd c)) (snd (snd c)) s')) calls s"

section \<open>A small world to run the collector in\<close>

text \<open>
  Two airports, one arriving flight, and collaborators whose answers are fixed. The
  weather collaborator is given by its answer to the n-th request of the run, the
  detail collaborator by its one answer; only the second airport has a board.
\<close>

definition example_registry :: "(string \<times> (string \<times> rat) list) list" where
  "example_registry =
     [(''VABB'', [(''lat'', 19), (''lon'', 73)]), (''VIDP'', [(''lat'', 28), (''lon'', 77)])]"

definition example_weather :: json where
  "example_weather =
     JObj [(''current'', JObj [(''temp'', JNum 30), (''wind_speed'', JNum 5),
        (''weather'', JArr [JObj [(''main'', JStr ''Clouds''), (''description'', JStr ''few clouds'')]])])]"

definition example_details :: json where
  "example_details =
     JObj [(''origin'', JStr ''VABB''), (''filed_departuretime'', JNum 1000),
           (''actualdeparturetime'', JNum 1200)]"

definition example_flight :: "(string \<times> json) list" where
  "example_flight =
     [(''ident'', JStr ''AI101''), (''operator'', JStr ''AIC''), (''actualarrivaltime'', JNum 3600),
      (''estimatedarrivaltime'', JNum 3000), (''aircrafttype'', JStr ''A320'')]"

definition example_board :: json where
  "example_board =
     JObj [(''AirportBoardsResult'', JObj [(''arrivals'', JObj [(''flights'', JArr [JObj example_flight])])])]"

definition example_env :: "(nat \<Rightarrow> json option) \<Rightarrow> json option \<Rightarrow> env" where
  "example_env weather detail_response =
     \<lparr>registry = example_registry,
      weather_http = (\<lambda>n la lo dt. weather n),
      detail_http = (\<lambda>n ident. detail_response),
      board_http = (\<lambda>n icao hours. if icao = ''VIDP'' then Some example_board else None),
      py_repr = (\<lambda>j. ''None''),
      date_str = (\<lambda>d. if d = 0 then ''1970-01-01'' else ''1970-01-02'')\<rparr>"

definition example_record :: "json \<Rightarrow> json \<Rightarrow> json \<Rightarrow> json \<Rightarrow> flight_record" where
  "example_record wmain wdesc wtemp wwind =
     \<lparr>flight_number = JStr ''AI101'', airline = JStr ''AIC'', origin = JStr ''VABB'',
      destination = ''VIDP'', scheduled_departure = 1000, actual_departure = 1200,
      scheduled_arrival = 3000, actual_arrival = 3600, delay_minutes = 10,
      aircraft = JStr ''A320'', route_weather = wmain, route_weather_desc = wdesc,
      route_temp = wtemp, route_wind = wwind\<rparr>"

definition details_response :: "json \<Rightarrow> json option" where
  "details_response details = Some (JObj [(''FlightInfoStatusResult'', details)])"

definition example_env_ok :: env where
  "example_env_ok = example_env (\<lambda>n. Some example_weather) (details_response example_details)"

definition example_env_no_weather :: env where
  "example_env_no_weather = example_env (\<lambda>n. None) (details_response example_details)"

definition example_env_flaky :: env where
  "example_env_flaky =
     example_env (\<lambda>n. if n = 0 then None else Some example_weather) (details_response example_details)"

definition example_env_no_details :: env where
  "example_env_no_details = example_env (\<lambda>n. Some example_weather) None"

definition example_env_no_departure :: env where
  "example_env_no_departure =
     example_env (\<lambda>n. Some example_weather) (details_response (JObj [(''origin'', JStr ''VABB'')]))"

definition example_clf :: "int \<Rightarrow> bool" where
  "example_clf fv = (10 < fv)"

definition example_reg :: "int \<Rightarrow> rat" where
  "example_reg fv = 42"

definition example_sheet :: "nat sheet_row list" where
  "example_sheet =
     [\<lparr>columns = 1, sheet_delay_minutes = Some 20\<rparr>,
      \<lparr>columns = 2, sheet_delay_minutes = Some 10\<rparr>,
      \<lparr>columns = 3, sheet_delay_minutes = Some 30\<rparr>,
      \<lparr>columns = 4, sheet_delay_minutes = None\<rparr>]"

definition example_fit :: "nat list \<Rightarrow> nat \<Rightarrow> nat" where
  "example_fit cols c = c"

fun example_split :: "'a list \<Rightarrow> exn + 'a list \<times> 'a list" where
  "example_split [] = Inl ValueError"
| "example_split [x] = Inl ValueError"
| "example_split (x # rest) = Inr (rest, [x])"

definition example_env_empty_details :: env where
  "example_env_empty_details = example_env (\<lambda>n. Some example_weather) (details_response (JObj []))"

definition example_unknown :: flight_record where
  "example_unknown = example_record (JStr ''Unknown'') (JStr ''Unknown'') JNull JNull"

definition example_clouds :: flight_record where
  "example_clouds = example_record (JStr ''Clouds'') (JStr ''few clouds'') (JNum 30) (JNum 5)"

section \<open>Auxiliary facts\<close>

lemma bind_exn_Inr_iff: "bind_exn m f = Inr y \<longleftrightarrow> (\<exists>x. m = Inr x \<and> f x = Inr y)"
  by (cases m) auto

lemma cache_key_same_day:
  "date_of t1 = date_of t2 \<Longrightarrow> cache_key E orig dest t1 = cache_key E orig dest t2"
  by (simp add: cache_key_def)

lemma grw_cached:
  "weather_cache s (cache_key E orig dest t) = Some v \<Longrightarrow> get_route_weather E orig dest t s = (v, s)"
  by (simp add: get_route_weather_def)

lemma grw_failed:
  assumes "weather_cache s (cache_key E orig dest t) = None"
    and "get_midpoint E orig dest = Inr m"
    and "weather_http E (length (http_log s)) (lat m) (lon m) (int_timestamp t) = None"
  shows "get_route_weather E orig dest t s = (JNull, sent s (WeatherReq (lat m) (lon m) (int_timestamp t)))"
  using assms by (simp add: get_route_weather_def)

lemma grw_no_midpoint:
  assumes "weather_cache s (cache_key E orig dest t) = None"
    and "get_midpoint E orig dest = Inl e"
  shows "get_route_weather E orig dest t s = (JNull, s)"
  using assms by (simp add: get_route_weather_def)

lemma grw_answered:
  assumes "weather_cache s (cache_key E orig dest t) = None"
    and "get_midpoint E orig dest = Inr m"
    and "weather_http E (length (http_log s)) (lat m) (lon m) (int_timestamp t) = Some w"
  shows "get_route_weather E orig dest t s =
           (w, s\<lparr>weather_cache := (weather_cache s)(cache_key E orig dest t \<mapsto> w),
                 http_log := http_log s @ [WeatherReq (lat m) (lon m) (int_timestamp t)]\<rparr>)"
  using assms by (simp add: get_route_weather_def sent_def)

lemma grw_cases:
  obtains (cached) v where "weather_cache s (cache_key E orig dest t) = Some v"
      "get_route_weather E orig dest t s = (v, s)"
  | (no_midpoint) "weather_cache s (cache_key E orig dest t) = None"
      "get_route_weather E orig dest t s = (JNull, s)"
  | (failed) m where "weather_cache s (cache_key E orig dest t) = None"
      "get_midpoint E orig dest = Inr m"
      "weather_http E (length (http_log s)) (lat m) (lon m) (int_timestamp t) = None"
      "get_route_weather E orig dest t s = (JNull, sent s (WeatherReq (lat m) (lon m) (int_timestamp t)))"
  | (answered) m w where "weather_cache s (cache_key E orig dest t) = None"
      "get_midpoint E orig dest = Inr m"
      "weather_http E (length (http_log s)) (lat m) (lon m) (int_timestamp t) = Some w"
      "get_route_weather E orig dest t s =
           (w, s\<lparr>weather_cache := (weather_cache s)(cache_key E orig dest t \<mapsto> w),
                 http_log := http_log s @ [WeatherReq (lat m) (lon m) (int_timestamp t)]\<rparr>)"
proof (cases "weather_cache s (cache_key E orig dest t)")
  case (Some v)
  then show ?thesis using cached grw_cached by blast
next
  case None
  show ?thesis
  proof (cases "get_midpoint E orig dest")
    case (Inl e)
    then show ?thesis using None no_midpoint grw_no_midpoint by blast
  next
    case (Inr m)
    show ?thesis
    proof (cases "weather_http E (length (http_log s)) (lat m) (lon m) (int_timestamp t)")
      case None': None
      show ?thesis using failed [OF None Inr None'] grw_failed [OF None Inr None'] by blast
    next
      case (Some w)
      show ?thesis using answered [OF None Inr Some] grw_answered [OF None Inr Some] by blast
    qed
  qed
qed

lemma grw_cache_kept:
  assumes "weather_cache s k = Some v"
  shows "weather_cache (snd (get_route_weather E orig dest t s)) k = Some v"
  by (cases rule: grw_cases [of s E orig dest t]) (use assms in \<open>auto simp: sent_def\<close>)

lemma from_collaborator_append:
  "from_collaborator E reqs v \<Longrightarrow> from_collaborator E (reqs @ new) v"
  unfolding from_collaborator_def
  by (metis length_append nth_append trans_less_add1)

lemma cache_sound_sent: "cache_sound E s \<Longrightarrow> cache_sound E (sent s r)"
  by (auto simp: cache_sound_def sent_def intro: from_collaborator_append)

lemma grw_sound:
  assumes "cache_sound E s"
  shows "cache_sound E (snd (get_route_weather E orig dest t s))"
proof (cases rule: grw_cases [of s E orig dest t])
  case (answered m w)
  have "from_collaborator E (http_log s @ [WeatherReq (lat m) (lon m) (int_timestamp t)]) w"
    unfolding from_collaborator_def
    using answered(3) by (intro exI [of _ "length (http_log s)"]) simp
  with assms show ?thesis
    by (auto simp: answered(4) cache_sound_def intro: from_collaborator_append)
qed (use assms in \<open>auto simp: cache_sound_sent\<close>)

lemma gfd_state: "snd (get_flight_details E i s) = sent s (DetailReq i)"
  by (simp add: get_flight_details_def Let_def split: option.splits sum.splits)

lemma enrich_state:
  "snd (enrich E flight icao details s) = s
     \<or> (\<exists>orig t. snd (enrich E flight icao details s) = snd (get_route_weather E orig (JStr icao) t s))"
  unfolding enrich_def
  by (auto split: sum.splits prod.splits) (metis snd_conv)

lemma process_flight_state:
  "snd (process_flight E flight icao s) = s
     \<or> (\<exists>i. snd (process_flight E flight icao s) = sent s (DetailReq i))
     \<or> (\<exists>i orig t. snd (process_flight E flight icao s) =
            snd (get_route_weather E orig (JStr icao) t (sent s (DetailReq i))))"
proof (cases "dict_item flight ''ident''")
  case (Inl e)
  then show ?thesis by (simp add: process_flight_def process_flight_try_def)
next
  case (Inr i)
  obtain details s1 where d: "get_flight_details E i s = (details, s1)"
    by (cases "get_flight_details E i s")
  with gfd_state [of E i s] have s1: "s1 = sent s (DetailReq i)" by simp
  show ?thesis
  proof (cases "truthy details")
    case False
    then show ?thesis using Inr d s1 by (auto simp: process_flight_def process_flight_try_def)
  next
    case True
    then have "snd (process_flight E flight icao s) = snd (enrich E flight icao details s1)"
      using Inr d by (auto simp: process_flight_def process_flight_try_def split: prod.splits sum.splits)
    then show ?thesis using enrich_state [of E flight icao details s1] s1 by metis
  qed
qed

lemma process_flight_preserves:
  assumes "P s"
    and "\<And>s i. P s \<Longrightarrow> P (sent s (DetailReq i))"
    and "\<And>s orig dest t. P s \<Longrightarrow> P (snd (get_route_weather E orig dest t s))"
  shows "P (snd (process_flight E flight icao s))"
  using process_flight_state [of E flight icao s] assms by metis

lemma process_flights_preserves:
  assumes "P s"
    and "\<And>s i. P s \<Longrightarrow> P (sent s (DetailReq i))"
    and "\<And>s orig dest t. P s \<Longrightarrow> P (snd (get_route_weather E orig dest t s))"
  shows "P (snd (process_flights E icao flights (acc, s)))"
  using assms(1)
proof (induction flights arbitrary: acc s)
  case Nil
  then show ?case by simp
next
  case (Cons f rest)
  show ?case
  proof (cases f)
    case (JObj flight)
    have "P (snd (process_flight E flight icao s))"
      by (rule process_flight_preserves [where P = P, OF Cons.prems assms(2,3)])
    then show ?thesis
      using Cons.IH JObj
      by (cases "process_flight E flight icao s") (auto split: option.splits)
  qed (use Cons.prems in simp_all)
qed

lemma collect_airport_step:
  "\<exists>flights. collect_airport E hours icao (acc, s) =
      process_flights E icao flights (acc, sent s (BoardReq icao hours))"
proof (cases "board_http E (length (http_log s)) icao hours")
  case None
  then have "collect_airport E hours icao (acc, s) =
      process_flights E icao [] (acc, sent s (BoardReq icao hours))"
    by (simp add: collect_airport_def)
  then show ?thesis ..
next
  case (Some response)
  show ?thesis
  proof (cases "board_flights response")
    case (Inl e)
    then have "collect_airport E hours icao (acc, s) =
        process_flights E icao [] (acc, sent s (BoardReq icao hours))"
      using Some by (simp add: collect_airport_def)
    then show ?thesis ..
  next
    case (Inr flights)
    then have "collect_airport E hours icao (acc, s) =
        process_flights E icao flights (acc, sent s (BoardReq icao hours))"
      using Some by (simp add: collect_airport_def)
    then show ?thesis ..
  qed
qed

lemma collect_airport_skipped:
  assumes "board_http E (length (http_log s)) icao hours = None
     \<or> (\<exists>response e. board_http E (length (http_log s)) icao hours = Some response
           \<and> board_flights response = Inl e)"
  shows "collect_airport E hours icao (acc, s) = (acc, sent s (BoardReq icao hours))"
  using assms by (auto simp: collect_airport_def)

lemma collect_airports_append:
  "collect_airports E hours (pre @ icao # post) acc =
     collect_airports E hours post (collect_airport E hours icao (collect_airports E hours pre acc))"
  by (simp add: collect_airports_def)

lemma grw_board_log:
  "filter is_board (http_log (snd (get_route_weather E orig dest t s))) = filter is_board (http_log s)"
  by (cases rule: grw_cases [of s E orig dest t]) (simp_all add: sent_def)

lemma process_flights_board_log:
  "filter is_board (http_log (snd (process_flights E icao flights (acc, s)))) = filter is_board (http_log s)"
  by (rule process_flights_preserves [where P = "\<lambda>s'. filter is_board (http_log s') = filter is_board (http_log s)"])
     (simp_all add: grw_board_log sent_def)

lemma collect_airport_board_log:
  "filter is_board (http_log (snd (collect_airport E hours icao (acc, s)))) =
     filter is_board (http_log s) @ [BoardReq icao hours]"
proof -
  obtain flights where "collect_airport E hours icao (acc, s) =
      process_flights E icao flights (acc, sent s (BoardReq icao hours))"
    using collect_airport_step by blast
  then show ?thesis by (simp add: process_flights_board_log) (simp add: sent_def)
qed

lemma collect_airports_board_log:
  "filter is_board (http_log (snd (collect_airports E hours icaos (acc, s)))) =
     filter is_board (http_log s) @ map (\<lambda>icao. BoardReq icao hours) icaos"
proof (induction icaos arbitrary: acc s)
  case Nil
  then show ?case by (simp add: collect_airports_def)
next
  case (Cons icao rest)
  obtain acc1 s1 where step: "collect_airport E hours icao (acc, s) = (acc1, s1)"
    by (cases "collect_airport E hours icao (acc, s)")
  have "filter is_board (http_log s1) = filter is_board (http_log s) @ [BoardReq icao hours]"
    using collect_airport_board_log [of E hours icao acc s] step by simp
  moreover have "collect_airports E hours (icao # rest) (acc, s) = collect_airports E hours rest (acc1, s1)"
    using step by (simp add: collect_airports_def)
  ultimately show ?case using Cons.IH [of acc1 s1] by simp
qed

lemma process_flights_appends:
  "\<exists>new. fst (process_flights E icao flights (acc, s)) = acc @ new
     \<and> (\<forall>r \<in> set new. \<exists>flight s0. fst (process_flight E flight icao s0) = Some r)"
proof (induction flights arbitrary: acc s)
  case Nil
  then show ?case by simp
next
  case (Cons f rest)
  show ?case
  proof (cases f)
    case (JObj flight)
    obtain p s1 where pf: "process_flight E flight icao s = (p, s1)"
      by (cases "process_flight E flight icao s")
    show ?thesis
    proof (cases p)
      case None
      then show ?thesis using Cons.IH [of acc s1] JObj pf by simp
    next
      case (Some r)
      obtain new where new: "fst (process_flights E icao rest (acc @ [r], s1)) = (acc @ [r]) @ new"
        "\<forall>r \<in> set new. \<exists>flight s0. fst (process_flight E flight icao s0) = Some r"
        using Cons.IH [of "acc @ [r]" s1] by blast
      have "fst (process_flight E flight icao s) = Some r" using pf Some by simp
      then have "\<forall>x \<in> set (r # new). \<exists>flight s0. fst (process_flight E flight icao s0) = Some x"
        using new(2) by auto
      moreover have "fst (process_flights E icao (f # rest) (acc, s)) = acc @ (r # new)"
        using new(1) JObj pf Some by simp
      ultimately show ?thesis by blast
    qed
  qed simp_all
qed

lemma collect_airport_appends:
  "\<exists>new. fst (collect_airport E hours icao (acc, s)) = acc @ new
     \<and> (\<forall>r \<in> set new. \<exists>flight s0. fst (process_flight E flight icao s0) = Some r)"
proof -
  obtain flights where "collect_airport E hours icao (acc, s) =
      process_flights E icao flights (acc, sent s (BoardReq icao hours))"
    using collect_airport_step by blast
  then show ?thesis using process_flights_appends by simp
qed

lemma collect_airports_appends:
  "\<exists>new. fst (collect_airports E hours icaos (acc, s)) = acc @ new
     \<and> (\<forall>r \<in> set new. \<exists>flight icao s0. icao \<in> set icaos \<and> fst (process_flight E flight icao s0) = Some r)"
proof (induction icaos arbitrary: acc s)
  case Nil
  then show ?case by (simp add: collect_airports_def)
next
  case (Cons icao rest)
  obtain acc1 s1 where step: "collect_airport E hours icao (acc, s) = (acc1, s1)"
    by (cases "collect_airport E hours icao (acc, s)")
  obtain new1 where new1: "acc1 = acc @ new1"
    "\<forall>r \<in> set new1. \<exists>flight s0. fst (process_flight E flight icao s0) = Some r"
    using collect_airport_appends [of E hours icao acc s] step by auto
  obtain new2 where new2: "fst (collect_airports E hours rest (acc1, s1)) = acc1 @ new2"
    "\<forall>r \<in> set new2. \<exists>flight icao s0. icao \<in> set rest \<and> fst (process_flight E flight icao s0) = Some r"
    using Cons.IH [of acc1 s1] by blast
  have "collect_airports E hours (icao # rest) (acc, s) = collect_airports E hours rest (acc1, s1)"
    using step by (simp add: collect_airports_def)
  then have "fst (collect_airports E hours (icao # rest) (acc, s)) = acc @ (new1 @ new2)"
    using new1(1) new2(1) by simp
  moreover have "\<forall>r \<in> set (new1 @ new2). \<exists>flight i s0. i \<in> set (icao # rest) \<and> fst (process_flight E flight i s0) = Some r"
    using new1(2) new2(2) by (auto simp del: fst_conv) (metis, metis)
  ultimately show ?case by blast
qed

lemma collect_airports_sound:
  assumes "cache_sound E s"
  shows "cache_sound E (snd (collect_airports E hours icaos (acc, s)))"
  using assms
proof (induction icaos arbitrary: acc s)
  case Nil
  then show ?case by (simp add: collect_airports_def)
next
  case (Cons icao rest)
  obtain flights where fl: "collect_airport E hours icao (acc, s) =
      process_flights E icao flights (acc, sent s (BoardReq icao hours))"
    using collect_airport_step by blast
  obtain acc1 s1 where step: "collect_airport E hours icao (acc, s) = (acc1, s1)"
    by (cases "collect_airport E hours icao (acc, s)")
  have "cache_sound E (snd (process_flights E icao flights (acc, sent s (BoardReq icao hours))))"
    by (rule process_flights_preserves [where P = "cache_sound E"])
       (simp_all add: cache_sound_sent grw_sound Cons.prems)
  then have "cache_sound E s1" using fl step by (metis snd_conv)
  moreover have "collect_airports E hours (icao # rest) (acc, s) = collect_airports E hours rest (acc1, s1)"
    using step by (simp add: collect_airports_def)
  ultimately show ?case using Cons.IH [of s1 acc1] by simp
qed

lemma collect_data_fst:
  "fst (collect_data E hours filename s) = fst (collect_airports E hours (map fst (registry E)) ([], s))"
  by (simp add: collect_data_def split: prod.splits)

lemma collect_data_snd:
  "snd (collect_data E hours filename s) =
     (snd (collect_airports E hours (map fst (registry E)) ([], s)))
       \<lparr>saved := Some (filename, fst (collect_data E hours filename s))\<rparr>"
  by (simp add: collect_data_def split: prod.splits)

lemmas example_defs = example_registry_def example_weather_def example_details_def
  example_flight_def example_board_def example_env_def example_record_def
  details_response_def example_env_ok_def example_env_no_weather_def example_env_flaky_def
  example_env_no_details_def example_env_no_departure_def

lemma date_of_first_day: "0 \<le> t \<Longrightarrow> t < 86400 \<Longrightarrow> date_of t = 0"
  by (simp add: date_of_def floor_eq_iff)

lemmas collector_defs = process_flight_def process_flight_try_def enrich_def assemble_def
  delay_of_def get_flight_details_def get_route_weather_def get_midpoint_def cache_key_def
  py_str_def sent_def init_state_def dict_item_def dict_get_def coord_def fromtimestamp_def
  datetime_min_def datetime_max_def date_of_first_day int_timestamp_def weather_main_def
  weather_desc_def weather_temp_def weather_wind_def current_weather_def

lemma example_run:
  "fst (process_flight example_env_ok
          example_flight ''VIDP'' init_state) =
     Some (example_record (JStr ''Clouds'') (JStr ''few clouds'') (JNum 30) (JNum 5))"
  by (simp add: example_defs collector_defs)

lemma fromtimestamp_Inr: "fromtimestamp j = Inr t \<Longrightarrow> num_of j = Inr t"
  by (auto simp: fromtimestamp_def split: sum.splits if_splits)

lemma assemble_delay:
  assumes "assemble flight icao details dep rw = Inr r"
  shows "\<exists>a b. map_of flight ''actualarrivaltime'' = Some a
           \<and> map_of flight ''estimatedarrivaltime'' = Some b
           \<and> num_of a = Inr (actual_arrival r)
           \<and> num_of b = Inr (scheduled_arrival r)
           \<and> delay_minutes r = (actual_arrival r - scheduled_arrival r) / 60"
  using assms
  unfolding assemble_def delay_of_def
  by (auto simp: bind_exn_Inr_iff dict_item_def dest!: fromtimestamp_Inr split: option.splits)

lemma process_flight_Some:
  assumes "fst (process_flight E flight icao s) = Some r"
  shows "\<exists>details dep rw. truthy details \<and> assemble flight icao details dep rw = Inr r"
  using assms
  unfolding process_flight_def process_flight_try_def enrich_def
  by (auto split: sum.splits prod.splits if_splits)

text \<open>
  A record is assembled from an observation that is true as a condition only when the
  observation has the key \<open>current\<close>: an answer of another shape, once decoded and
  cached, makes the dictionary display raise.
\<close>

lemma assemble_reads_observation:
  assumes "assemble flight icao details dep rw = Inr r" and "truthy rw"
  shows "\<exists>c. item_key rw ''current'' = Inr c"
  using assms
  unfolding assemble_def weather_main_def current_weather_def
  by (auto simp: bind_exn_Inr_iff)

lemma preprocess_flag:
  "r \<in> set (preprocess_data fit df) \<Longrightarrow>
     (is_delayed r = 1 \<longleftrightarrow> (\<exists>d. arrival_delay r = Some d \<and> 15 < d)) \<and> (is_delayed r = 0 \<or> is_delayed r = 1)"
  by (auto simp: preprocess_data_def delayed_flag_def Let_def split: option.splits if_splits)

lemma example_split_contract:
  "\<forall>xs tr te. example_split xs = Inr (tr, te) \<longrightarrow> set tr \<subseteq> set xs"
proof (intro allI impI)
  fix xs tr te :: "'a list"
  assume "example_split xs = Inr (tr, te)"
  then show "set tr \<subseteq> set xs"
    by (cases xs rule: example_split.cases) auto
qed

lemma example_training:
  "train_models example_split (preprocess_data example_fit example_sheet) =
     Inr \<lparr>clf_train = [(2, 0), (3, 1), (4, 0)], clf_test = [(1, 1)],
          reg_train = [(3, Some 30)], reg_test = [(1, Some 20)]\<rparr>"
  by (simp add: train_models_def preprocess_data_def example_sheet_def example_fit_def
      delayed_flag_def Let_def)

lemma calls_cache_kept:
  "weather_cache s k = Some v \<Longrightarrow> weather_cache (route_weather_calls E calls s) k = Some v"
proof (induction calls arbitrary: s)
  case Nil
  then show ?case by (simp add: route_weather_calls_def)
next
  case (Cons c calls)
  have "weather_cache (snd (get_route_weather E (fst c) (fst (snd c)) (snd (snd c)) s)) k = Some v"
    using Cons.prems by (rule grw_cache_kept)
  then show ?case using Cons.IH by (simp add: route_weather_calls_def)
qed

lemma grw_stored_value:
  assumes "get_route_weather E orig dest t s = (v, s1)"
    and "weather_cache s1 (cache_key E orig dest t) \<noteq> None"
  shows "weather_cache s1 (cache_key E orig dest t) = Some v"
  by (cases rule: grw_cases [of s E orig dest t]) (use assms in \<open>auto simp: sent_def\<close>)

lemma example_first_lookup:
  "get_route_weather example_env_ok (JStr ''VABB'') (JStr ''VIDP'') 100 init_state =
     (example_weather,
      \<lparr>weather_cache = [''VABB-VIDP-1970-01-01'' \<mapsto> example_weather],
       http_log = [WeatherReq (47 / 2) 75 100], saved = None\<rparr>)"
  by (simp add: example_defs collector_defs)

lemma fromtimestamp_epoch: "fromtimestamp (JNum 0) = Inr 0"
  by (simp add: fromtimestamp_def datetime_min_def datetime_max_def)

lemmas example_defs2 = example_defs example_env_empty_details_def example_unknown_def
  example_clouds_def

lemma example_collect:
  "fst (collect_data example_env_ok 24 ''flight_data_enhanced.xlsx'' init_state) = [example_clouds]"
  by (simp add: collect_data_def collect_airports_def collect_airport_def board_flights_def
      example_defs2 collector_defs)

section \<open>The claims\<close>

text \<open>
  Claim C1. Every record that \<open>process_flight\<close> produces has, as \<open>delay_minutes\<close>,
  the board entry's actual arrival epoch minus its estimated arrival epoch, divided by 60;
  these two epochs are the record's \<open>actual_arrival\<close> and \<open>scheduled_arrival\<close>. With
  3600 and 3000 the delay is 10.
\<close>

theorem delay_minutes_arrival_delay:
  assumes "fst (process_flight E flight icao s) = Some r"
  shows "\<exists>a b. map_of flight ''actualarrivaltime'' = Some a
           \<and> map_of flight ''estimatedarrivaltime'' = Some b
           \<and> num_of a = Inr (actual_arrival r)
           \<and> num_of b = Inr (scheduled_arrival r)
           \<and> delay_minutes r = (actual_arrival r - scheduled_arrival r) / 60"
  using process_flight_Some [OF assms] assemble_delay by blast

theorem delay_minutes_arrival_delay_witness:
  "fst (process_flight example_env_ok example_flight ''VIDP'' init_state) =
     Some (example_record (JStr ''Clouds'') (JStr ''few clouds'') (JNum 30) (JNum 5))
   \<and> map_of example_flight ''actualarrivaltime'' = Some (JNum 3600)
   \<and> map_of example_flight ''estimatedarrivaltime'' = Some (JNum 3000)
   \<and> delay_minutes (example_record (JStr ''Clouds'') (JStr ''few clouds'') (JNum 30) (JNum 5)) = 10"
proof -
  let ?r = "example_record (JStr ''Clouds'') (JStr ''few clouds'') (JNum 30) (JNum 5)"
  have run: "fst (process_flight example_env_ok example_flight ''VIDP'' init_state) = Some ?r"
    by (rule example_run)
  have "delay_minutes ?r = (actual_arrival ?r - scheduled_arrival ?r) / 60"
    using delay_minutes_arrival_delay [OF run] by blast
  then have "delay_minutes ?r = 10" by (simp add: example_record_def)
  then show ?thesis using run by (simp add: example_flight_def)
qed

text \<open>
  Claim C2. The combined predict operation, on any feature vector: when the classifier
  says not delayed, the estimate is null and the regressor has not been invoked; when it
  says delayed, the regressor has been invoked once and its estimate is returned.
\<close>

theorem predict_two_stage:
  "(\<not> clf fv \<longrightarrow>
      predict clf reg fv invoked =
        (\<lparr>predicted_delayed = False, estimated_delay_minutes = None\<rparr>, invoked))
   \<and> (clf fv \<longrightarrow>
      predict clf reg fv invoked =
        (\<lparr>predicted_delayed = True, estimated_delay_minutes = Some (reg fv)\<rparr>, Suc invoked))"
  by (simp add: predict_def)

theorem predict_two_stage_witness:
  "\<not> example_clf 3 \<and> example_clf 20
   \<and> predict example_clf example_reg 3 0 =
        (\<lparr>predicted_delayed = False, estimated_delay_minutes = None\<rparr>, 0)
   \<and> predict example_clf example_reg 20 0 =
        (\<lparr>predicted_delayed = True, estimated_delay_minutes = Some 42\<rparr>, 1)"
  using predict_two_stage [of example_clf 3 example_reg 0] predict_two_stage [of example_clf 20 example_reg 0]
  by (simp add: example_clf_def example_reg_def)

text \<open>
  Claim C3. In every row of the preprocessed frame, \<open>is_delayed\<close> is 1 exactly when
  \<open>arrival_delay\<close> is there and greater than 15, and 0 otherwise. When \<open>train_models\<close>
  completes, every row the regressor is fitted on comes from a row of the frame whose
  \<open>is_delayed\<close> is 1, so its delay is greater than 15. The split is the library's: what is
  used of it is that the training rows are rows of what it was given.
\<close>

theorem regressor_fitted_on_delayed_only:
  assumes "\<forall>xs tr te. split xs = Inr (tr, te) \<longrightarrow> set tr \<subseteq> set xs"
    and "train_models split (preprocess_data fit df) = Inr m"
  shows "(\<forall>r \<in> set (preprocess_data fit df).
            (is_delayed r = 1 \<longleftrightarrow> (\<exists>d. arrival_delay r = Some d \<and> 15 < d))
            \<and> (is_delayed r = 0 \<or> is_delayed r = 1))
         \<and> (\<forall>xy \<in> set (reg_train m).
              \<exists>r \<in> set (preprocess_data fit df).
                 xy = (features r, arrival_delay r) \<and> is_delayed r = 1
                 \<and> (\<exists>d. snd xy = Some d \<and> 15 < d))"
proof (intro conjI ballI)
  fix r assume "r \<in> set (preprocess_data fit df)"
  then show "is_delayed r = 1 \<longleftrightarrow> (\<exists>d. arrival_delay r = Some d \<and> 15 < d)"
    and "is_delayed r = 0 \<or> is_delayed r = 1"
    using preprocess_flag by blast+
next
  fix xy assume xy: "xy \<in> set (reg_train m)"
  let ?df = "preprocess_data fit df"
  obtain r_train r_test where
    s2: "split (filter (\<lambda>r. is_delayed r = 1) ?df) = Inr (r_train, r_test)"
    and m: "reg_train m = map (\<lambda>r. (features r, arrival_delay r)) r_train"
    using assms(2) unfolding train_models_def Let_def
    by (auto split: sum.splits prod.splits)
  from xy m obtain r where r: "r \<in> set r_train" "xy = (features r, arrival_delay r)" by auto
  have "set r_train \<subseteq> set (filter (\<lambda>r. is_delayed r = 1) ?df)"
    using assms(1) s2 by blast
  with r(1) have r_in: "r \<in> set ?df" and r_del: "is_delayed r = 1" by auto
  then have "\<exists>d. arrival_delay r = Some d \<and> 15 < d" using preprocess_flag by blast
  then show "\<exists>r \<in> set ?df. xy = (features r, arrival_delay r) \<and> is_delayed r = 1
                 \<and> (\<exists>d. snd xy = Some d \<and> 15 < d)"
    using r(2) r_in r_del by auto
qed

theorem regressor_fitted_on_delayed_only_witness:
  "train_models example_split (preprocess_data example_fit example_sheet) =
     Inr \<lparr>clf_train = [(2, 0), (3, 1), (4, 0)], clf_test = [(1, 1)],
          reg_train = [(3, Some 30)], reg_test = [(1, Some 20)]\<rparr>
   \<and> (\<exists>d. snd (3::nat, Some (30::rat)) = Some d \<and> 15 < d)"
proof -
  have c: "\<forall>xs tr te. example_split xs = Inr (tr, te) \<longrightarrow> set tr \<subseteq> set (xs :: nat row list)"
    by (rule example_split_contract)
  have "\<forall>xy \<in> set [(3::nat, Some (30::rat))]. \<exists>d. snd xy = Some d \<and> 15 < d"
    using regressor_fitted_on_delayed_only [OF c example_training] by fastforce
  then have "\<exists>d. snd (3::nat, Some (30::rat)) = Some d \<and> 15 < d" by simp
  then show ?thesis using example_training by blast
qed

text \<open>
  Claim C4, as the code has it. Take a lookup for an origin, a destination and a time,
  after which the key is in the cache (the lookup found it there, or the collaborator
  answered). Then a lookup for the same origin and destination at a time of the same
  calendar day, made next or after any number of other lookups, returns the value the first
  one returned and leaves the state as it is: no request is sent.
\<close>

theorem later_lookup_cached:
  assumes "get_route_weather E orig dest t1 s = (v, s1)"
    and "weather_cache s1 (cache_key E orig dest t1) \<noteq> None"
    and "date_of t2 = date_of t1"
    and "s2 = route_weather_calls E calls s1"
  shows "get_route_weather E orig dest t2 s2 = (v, s2)"
proof -
  have "weather_cache s1 (cache_key E orig dest t1) = Some v"
    using assms(1,2) by (rule grw_stored_value)
  then have "weather_cache s2 (cache_key E orig dest t1) = Some v"
    unfolding assms(4) by (rule calls_cache_kept)
  then have "weather_cache s2 (cache_key E orig dest t2) = Some v"
    using cache_key_same_day [OF assms(3)] by simp
  then show ?thesis by (rule grw_cached)
qed

theorem later_lookup_cached_witness:
  "get_route_weather example_env_ok (JStr ''VABB'') (JStr ''VIDP'') 100 init_state =
     (example_weather,
      \<lparr>weather_cache = [''VABB-VIDP-1970-01-01'' \<mapsto> example_weather],
       http_log = [WeatherReq (47 / 2) 75 100], saved = None\<rparr>)
   \<and> date_of 200 = date_of 100
   \<and> get_route_weather example_env_ok (JStr ''VABB'') (JStr ''VIDP'') 200
       \<lparr>weather_cache = [''VABB-VIDP-1970-01-01'' \<mapsto> example_weather],
        http_log = [WeatherReq (47 / 2) 75 100], saved = None\<rparr> =
     (example_weather,
      \<lparr>weather_cache = [''VABB-VIDP-1970-01-01'' \<mapsto> example_weather],
       http_log = [WeatherReq (47 / 2) 75 100], saved = None\<rparr>)"
proof -
  let ?s1 = "\<lparr>weather_cache = [''VABB-VIDP-1970-01-01'' \<mapsto> example_weather],
       http_log = [WeatherReq (47 / 2) 75 100], saved = None\<rparr>"
  have stored: "weather_cache ?s1 (cache_key example_env_ok (JStr ''VABB'') (JStr ''VIDP'') 100) \<noteq> None"
    by (simp add: example_defs collector_defs)
  have day: "date_of 200 = date_of 100" by (simp add: date_of_first_day)
  have none: "?s1 = route_weather_calls example_env_ok [] ?s1"
    by (simp add: route_weather_calls_def)
  show ?thesis
    using later_lookup_cached [OF example_first_lookup stored day none] example_first_lookup day by simp
qed

text \<open>
  Without that condition the claim fails: when the collaborator fails on the first lookup
  and nothing is stored, the second lookup of the same route and day sends a request of
  its own.
\<close>

theorem first_lookup_failed_counterexample:
  "date_of 200 = date_of 100
   \<and> fst (get_route_weather example_env_flaky (JStr ''VABB'') (JStr ''VIDP'') 100 init_state) = JNull
   \<and> http_log (snd (get_route_weather example_env_flaky (JStr ''VABB'') (JStr ''VIDP'') 100 init_state)) =
       [WeatherReq (47 / 2) 75 100]
   \<and> http_log (snd (get_route_weather example_env_flaky (JStr ''VABB'') (JStr ''VIDP'') 200
        (snd (get_route_weather example_env_flaky (JStr ''VABB'') (JStr ''VIDP'') 100 init_state)))) =
       [WeatherReq (47 / 2) 75 100, WeatherReq (47 / 2) 75 200]"
  by (simp add: example_defs collector_defs)





text \<open>
  Claim C7. \<open>collect_data\<close> requests the board of every airport of the registry, once and
  in the registry's order, whatever fails on the way; what it writes at the end is what it
  returns; every record it returns was produced by \<open>process_flight\<close> for an airport of the
  registry; and an airport whose board request raises, or whose answer cannot be read,
  adds no record: the run continues with the airports after it, from the records
  accumulated before it.
\<close>

theorem collect_data_all_airports:
  "filter is_board (http_log (snd (collect_data E hours filename s))) =
      filter is_board (http_log s) @ map (\<lambda>icao. BoardReq icao hours) (map fst (registry E))
   \<and> saved (snd (collect_data E hours filename s)) = Some (filename, fst (collect_data E hours filename s))
   \<and> (\<forall>r \<in> set (fst (collect_data E hours filename s)).
         \<exists>flight icao s0. icao \<in> fst ` set (registry E) \<and> fst (process_flight E flight icao s0) = Some r)
   \<and> (\<forall>pre icao post acc sk.
         map fst (registry E) = pre @ icao # post
         \<and> collect_airports E hours pre ([], s) = (acc, sk)
         \<and> (board_http E (length (http_log sk)) icao hours = None
             \<or> (\<exists>response e. board_http E (length (http_log sk)) icao hours = Some response
                   \<and> board_flights response = Inl e))
         \<longrightarrow> fst (collect_data E hours filename s) =
               fst (collect_airports E hours post (acc, sent sk (BoardReq icao hours))))"
proof (intro conjI allI impI)
  show "filter is_board (http_log (snd (collect_data E hours filename s))) =
      filter is_board (http_log s) @ map (\<lambda>icao. BoardReq icao hours) (map fst (registry E))"
    by (simp add: collect_data_snd collect_airports_board_log)
  show "saved (snd (collect_data E hours filename s)) = Some (filename, fst (collect_data E hours filename s))"
    by (simp add: collect_data_snd)
  show "\<forall>r \<in> set (fst (collect_data E hours filename s)).
         \<exists>flight icao s0. icao \<in> fst ` set (registry E) \<and> fst (process_flight E flight icao s0) = Some r"
    using collect_airports_appends [of E hours "map fst (registry E)" "[]" s]
    by (auto simp: collect_data_fst simp del: fst_conv)
next
  fix pre icao post acc sk
  assume h: "map fst (registry E) = pre @ icao # post
         \<and> collect_airports E hours pre ([], s) = (acc, sk)
         \<and> (board_http E (length (http_log sk)) icao hours = None
             \<or> (\<exists>response e. board_http E (length (http_log sk)) icao hours = Some response
                   \<and> board_flights response = Inl e))"
  then have "collect_airport E hours icao (acc, sk) = (acc, sent sk (BoardReq icao hours))"
    using collect_airport_skipped by blast
  then show "fst (collect_data E hours filename s) =
               fst (collect_airports E hours post (acc, sent sk (BoardReq icao hours)))"
    using h by (simp add: collect_data_fst collect_airports_append)
qed

theorem collect_data_all_airports_witness:
  "map fst (registry example_env_ok) = [] @ ''VABB'' # [''VIDP'']
   \<and> collect_airports example_env_ok 24 [] ([], init_state) = ([], init_state)
   \<and> board_http example_env_ok (length (http_log init_state)) ''VABB'' 24 = None
   \<and> fst (collect_data example_env_ok 24 ''flight_data_enhanced.xlsx'' init_state) =
       fst (collect_airports example_env_ok 24 [''VIDP''] ([], sent init_state (BoardReq ''VABB'' 24)))
   \<and> fst (collect_data example_env_ok 24 ''flight_data_enhanced.xlsx'' init_state) = [example_clouds]
   \<and> filter is_board (http_log (snd (collect_data example_env_ok 24 ''flight_data_enhanced.xlsx'' init_state))) =
       [BoardReq ''VABB'' 24, BoardReq ''VIDP'' 24]
   \<and> saved (snd (collect_data example_env_ok 24 ''flight_data_enhanced.xlsx'' init_state)) =
       Some (''flight_data_enhanced.xlsx'', [example_clouds])"
proof -
  let ?E = example_env_ok
  let ?f = "''flight_data_enhanced.xlsx''"
  note c = collect_data_all_airports [of ?E 24 ?f init_state]
  have h1: "map fst (registry ?E) = [] @ ''VABB'' # [''VIDP'']" by (simp add: example_defs2)
  have h2: "collect_airports ?E 24 [] ([], init_state) = ([], init_state)"
    by (simp add: collect_airports_def)
  have h3: "board_http ?E (length (http_log init_state)) ''VABB'' 24 = None"
    by (simp add: example_defs2)
  from c have "\<forall>pre icao post acc sk.
         map fst (registry ?E) = pre @ icao # post
         \<and> collect_airports ?E 24 pre ([], init_state) = (acc, sk)
         \<and> (board_http ?E (length (http_log sk)) icao 24 = None
             \<or> (\<exists>response e. board_http ?E (length (http_log sk)) icao 24 = Some response
                   \<and> board_flights response = Inl e))
         \<longrightarrow> fst (collect_data ?E 24 ?f init_state) =
               fst (collect_airports ?E 24 post (acc, sent sk (BoardReq icao 24)))"
    by (elim conjE)
  then have skip: "fst (collect_data ?E 24 ?f init_state) =
       fst (collect_airports ?E 24 [''VIDP''] ([], sent init_state (BoardReq ''VABB'' 24)))"
    using h1 h2 h3 by blast
  from c have log: "filter is_board (http_log (snd (collect_data ?E 24 ?f init_state))) =
       filter is_board (http_log init_state) @ map (\<lambda>icao. BoardReq icao 24) (map fst (registry ?E))"
    by (elim conjE)
  from c have sv: "saved (snd (collect_data ?E 24 ?f init_state)) =
       Some (?f, fst (collect_data ?E 24 ?f init_state))"
    by (elim conjE)
  have log': "filter is_board (http_log (snd (collect_data ?E 24 ?f init_state))) =
       [BoardReq ''VABB'' 24, BoardReq ''VIDP'' 24]"
    using log by (simp add: example_defs2 init_state_def)
  show ?thesis using h1 h2 h3 skip example_collect log' sv by simp
qed

text \<open>
  Claim C8. The midpoint of two airport codes is the arithmetic mean of their latitudes and
  of their longitudes; a code that is not in the registry counts as latitude 0 and
  longitude 0, so two unknown codes give the midpoint (0, 0).
\<close>

theorem midpoint_mean:
  "(map_of (registry E) a = Some ea \<and> map_of ea ''lat'' = Some la \<and> map_of ea ''lon'' = Some lo
      \<and> map_of (registry E) b = Some eb \<and> map_of eb ''lat'' = Some lb \<and> map_of eb ''lon'' = Some lob
    \<longrightarrow> get_midpoint E (JStr a) (JStr b) = Inr \<lparr>lat = (la + lb) / 2, lon = (lo + lob) / 2\<rparr>)
   \<and> (map_of (registry E) a = None
      \<and> map_of (registry E) b = Some eb \<and> map_of eb ''lat'' = Some lb \<and> map_of eb ''lon'' = Some lob
    \<longrightarrow> get_midpoint E (JStr a) (JStr b) = Inr \<lparr>lat = (0 + lb) / 2, lon = (0 + lob) / 2\<rparr>)
   \<and> (map_of (registry E) a = Some ea \<and> map_of ea ''lat'' = Some la \<and> map_of ea ''lon'' = Some lo
      \<and> map_of (registry E) b = None
    \<longrightarrow> get_midpoint E (JStr a) (JStr b) = Inr \<lparr>lat = (la + 0) / 2, lon = (lo + 0) / 2\<rparr>)
   \<and> (map_of (registry E) a = None \<and> map_of (registry E) b = None
    \<longrightarrow> get_midpoint E (JStr a) (JStr b) = Inr \<lparr>lat = 0, lon = 0\<rparr>)"
  by (simp add: get_midpoint_def coord_def)

theorem midpoint_mean_witness:
  "get_midpoint example_env_ok (JStr ''VABB'') (JStr ''VIDP'') = Inr \<lparr>lat = 47 / 2, lon = 75\<rparr>
   \<and> map_of (registry example_env_ok) ''XXXX'' = None
   \<and> map_of (registry example_env_ok) ''YYYY'' = None
   \<and> get_midpoint example_env_ok (JStr ''XXXX'') (JStr ''VIDP'') = Inr \<lparr>lat = 14, lon = 77 / 2\<rparr>
   \<and> get_midpoint example_env_ok (JStr ''VABB'') (JStr ''XXXX'') = Inr \<lparr>lat = 19 / 2, lon = 73 / 2\<rparr>
   \<and> get_midpoint example_env_ok (JStr ''XXXX'') (JStr ''YYYY'') = Inr \<lparr>lat = 0, lon = 0\<rparr>"
  using
    midpoint_mean [of example_env_ok "''VABB''" "[(''lat'', 19), (''lon'', 73)]" 19 73 "''VIDP''"
           "[(''lat'', 28), (''lon'', 77)]" 28 77]
    midpoint_mean [of example_env_ok "''XXXX''" _ _ _ "''VIDP''" "[(''lat'', 28), (''lon'', 77)]" 28 77]
    midpoint_mean [of example_env_ok "''VABB''" "[(''lat'', 19), (''lon'', 73)]" 19 73 "''XXXX''"]
    midpoint_mean [of example_env_ok "''XXXX''" _ _ _ "''YYYY''"]
  by (simp add: example_defs)

text \<open>
  Claim C9. A weather request that raises makes the lookup return \<open>None\<close> and leaves the
  cache as it was, so the next lookup of the same route and day sends a request again. Every
  value in the cache is an answer the weather collaborator gave to a request of this run:
  this holds on the initial state, is kept by every lookup, and holds after
  \<open>collect_data\<close>.
\<close>

theorem failed_lookup_not_cached:
  "(weather_cache s (cache_key E orig dest t) = None
      \<and> get_midpoint E orig dest = Inr m
      \<and> weather_http E (length (http_log s)) (lat m) (lon m) (int_timestamp t) = None
      \<and> date_of t' = date_of t
    \<longrightarrow> get_route_weather E orig dest t s = (JNull, sent s (WeatherReq (lat m) (lon m) (int_timestamp t)))
      \<and> weather_cache (snd (get_route_weather E orig dest t s)) = weather_cache s
      \<and> http_log (snd (get_route_weather E orig dest t' (snd (get_route_weather E orig dest t s)))) =
          http_log s @ [WeatherReq (lat m) (lon m) (int_timestamp t),
                        WeatherReq (lat m) (lon m) (int_timestamp t')])
   \<and> (cache_sound E s \<longrightarrow> cache_sound E (snd (get_route_weather E orig dest t s)))
   \<and> cache_sound E init_state
   \<and> cache_sound E (snd (collect_data E hours filename init_state))"
proof (intro conjI impI)
  assume h: "weather_cache s (cache_key E orig dest t) = None
      \<and> get_midpoint E orig dest = Inr m
      \<and> weather_http E (length (http_log s)) (lat m) (lon m) (int_timestamp t) = None
      \<and> date_of t' = date_of t"
  let ?s1 = "sent s (WeatherReq (lat m) (lon m) (int_timestamp t))"
  show first: "get_route_weather E orig dest t s = (JNull, ?s1)"
    using h by (simp add: grw_failed)
  show "weather_cache (snd (get_route_weather E orig dest t s)) = weather_cache s"
    by (simp add: first sent_def)
  have "weather_cache ?s1 (cache_key E orig dest t') = None"
    using h by (simp add: sent_def cache_key_def)
  then show "http_log (snd (get_route_weather E orig dest t' (snd (get_route_weather E orig dest t s)))) =
          http_log s @ [WeatherReq (lat m) (lon m) (int_timestamp t),
                        WeatherReq (lat m) (lon m) (int_timestamp t')]"
    using h by (simp add: first get_route_weather_def sent_def Let_def split: option.splits)
next
  assume "cache_sound E s"
  then show "cache_sound E (snd (get_route_weather E orig dest t s))" by (rule grw_sound)
next
  show init: "cache_sound E init_state" by (simp add: cache_sound_def init_state_def)
  have "cache_sound E (snd (collect_airports E hours (map fst (registry E)) ([], init_state)))"
    using init by (rule collect_airports_sound)
  then show "cache_sound E (snd (collect_data E hours filename init_state))"
    by (simp add: collect_data_snd cache_sound_def)
qed

theorem failed_lookup_not_cached_witness:
  "weather_cache init_state (cache_key example_env_flaky (JStr ''VABB'') (JStr ''VIDP'') 100) = None
   \<and> get_midpoint example_env_flaky (JStr ''VABB'') (JStr ''VIDP'') = Inr \<lparr>lat = 47 / 2, lon = 75\<rparr>
   \<and> weather_http example_env_flaky (length (http_log init_state)) (47 / 2) 75 (int_timestamp 100) = None
   \<and> date_of 200 = date_of 100
   \<and> get_route_weather example_env_flaky (JStr ''VABB'') (JStr ''VIDP'') 100 init_state =
       (JNull, sent init_state (WeatherReq (47 / 2) 75 (int_timestamp 100)))
   \<and> weather_cache (snd (get_route_weather example_env_flaky (JStr ''VABB'') (JStr ''VIDP'') 100 init_state))
       = weather_cache init_state
   \<and> http_log (snd (get_route_weather example_env_flaky (JStr ''VABB'') (JStr ''VIDP'') 200
        (snd (get_route_weather example_env_flaky (JStr ''VABB'') (JStr ''VIDP'') 100 init_state)))) =
       http_log init_state @ [WeatherReq (47 / 2) 75 (int_timestamp 100),
                              WeatherReq (47 / 2) 75 (int_timestamp 200)]
   \<and> cache_sound example_env_flaky init_state
   \<and> cache_sound example_env_flaky
       (snd (get_route_weather example_env_flaky (JStr ''VABB'') (JStr ''VIDP'') 100 init_state))"
proof -
  let ?E = example_env_flaky
  let ?m = "\<lparr>lat = 47 / 2, lon = 75\<rparr>"
  have h1: "weather_cache init_state (cache_key ?E (JStr ''VABB'') (JStr ''VIDP'') 100) = None"
    by (simp add: init_state_def)
  have h2: "get_midpoint ?E (JStr ''VABB'') (JStr ''VIDP'') = Inr ?m"
    by (simp add: example_defs2 collector_defs)
  have h3: "weather_http ?E (length (http_log init_state)) (lat ?m) (lon ?m) (int_timestamp 100) = None"
    by (simp add: example_defs2 init_state_def)
  have h4: "date_of 200 = date_of 100" by (simp add: date_of_first_day)
  have h5: "cache_sound ?E init_state" by (simp add: cache_sound_def init_state_def)
  note c = failed_lookup_not_cached [of init_state ?E "JStr ''VABB''" "JStr ''VIDP''" 100 ?m 200]
  have q1: "get_route_weather ?E (JStr ''VABB'') (JStr ''VIDP'') 100 init_state =
       (JNull, sent init_state (WeatherReq (lat ?m) (lon ?m) (int_timestamp 100)))"
    and q2: "weather_cache (snd (get_route_weather ?E (JStr ''VABB'') (JStr ''VIDP'') 100 init_state))
       = weather_cache init_state"
    and q3: "http_log (snd (get_route_weather ?E (JStr ''VABB'') (JStr ''VIDP'') 200
        (snd (get_route_weather ?E (JStr ''VABB'') (JStr ''VIDP'') 100 init_state)))) =
       http_log init_state @ [WeatherReq (lat ?m) (lon ?m) (int_timestamp 100),
                              WeatherReq (lat ?m) (lon ?m) (int_timestamp 200)]"
    using c h1 h2 h3 h4 by blast+
  have q4: "cache_sound ?E (snd (get_route_weather ?E (JStr ''VABB'') (JStr ''VIDP'') 100 init_state))"
    using c h5 by blast
  have p1: "get_route_weather ?E (JStr ''VABB'') (JStr ''VIDP'') 100 init_state =
       (JNull, sent init_state (WeatherReq (47 / 2) 75 (int_timestamp 100)))"
    using q1 by simp
  have p3: "http_log (snd (get_route_weather ?E (JStr ''VABB'') (JStr ''VIDP'') 200
        (snd (get_route_weather ?E (JStr ''VABB'') (JStr ''VIDP'') 100 init_state)))) =
       http_log init_state @ [WeatherReq (47 / 2) 75 (int_timestamp 100),
                              WeatherReq (47 / 2) 75 (int_timestamp 200)]"
    using q3 by simp
  have p0: "weather_http ?E (length (http_log init_state)) (47 / 2) 75 (int_timestamp 100) = None"
    using h3 by simp
  show ?thesis using h1 h2 p0 h4 p1 q2 p3 h5 q4 by blast
qed

text \<open>
  Claim C10. When the details lack \<open>filed_departuretime\<close>, the departure time is the epoch:
  the weather is looked up at half the arrival epoch, and whenever the record's entries can
  be read with that departure time the record is returned, with \<open>scheduled_departure\<close> 0.
  When the details lack \<open>actualdeparturetime\<close>, every record returned has
  \<open>actual_departure\<close> 0.
\<close>

theorem missing_departure_epoch:
  "(map_of flight ''ident'' = Some ident
      \<and> get_flight_details E ident s = (JObj d, s1) \<and> d \<noteq> []
      \<and> map_of d ''filed_departuretime'' = None
      \<and> map_of flight ''actualarrivaltime'' = Some a \<and> fromtimestamp a = Inr arr
      \<and> get_route_weather E (dict_get d ''origin'' JNull) (JStr icao) (arr / 2) s1 = (rw, s2)
      \<and> assemble flight icao (JObj d) 0 rw = Inr r
    \<longrightarrow> process_flight E flight icao s = (Some r, s2) \<and> scheduled_departure r = 0)
   \<and> (map_of flight ''ident'' = Some ident
      \<and> get_flight_details E ident s = (JObj d, s1)
      \<and> map_of d ''actualdeparturetime'' = None
      \<and> fst (process_flight E flight icao s) = Some r
    \<longrightarrow> actual_departure r = 0)"
proof (intro conjI impI)
  assume h: "map_of flight ''ident'' = Some ident
      \<and> get_flight_details E ident s = (JObj d, s1) \<and> d \<noteq> []
      \<and> map_of d ''filed_departuretime'' = None
      \<and> map_of flight ''actualarrivaltime'' = Some a \<and> fromtimestamp a = Inr arr
      \<and> get_route_weather E (dict_get d ''origin'' JNull) (JStr icao) (arr / 2) s1 = (rw, s2)
      \<and> assemble flight icao (JObj d) 0 rw = Inr r"
  then have en: "enrich E flight icao (JObj d) s1 = (Inr r, s2)"
    by (simp add: enrich_def dict_item_def dict_get_def fromtimestamp_epoch)
  show "process_flight E flight icao s = (Some r, s2)"
    using h en by (simp add: process_flight_def process_flight_try_def dict_item_def)
  show "scheduled_departure r = 0"
    using h by (auto simp: assemble_def bind_exn_Inr_iff)
next
  assume h: "map_of flight ''ident'' = Some ident
      \<and> get_flight_details E ident s = (JObj d, s1)
      \<and> map_of d ''actualdeparturetime'' = None
      \<and> fst (process_flight E flight icao s) = Some r"
  then have "\<exists>dep rw. assemble flight icao (JObj d) dep rw = Inr r"
    unfolding process_flight_def process_flight_try_def enrich_def
    by (auto simp: dict_item_def split: sum.splits prod.splits if_splits)
  then show "actual_departure r = 0"
    using h by (auto simp: assemble_def bind_exn_Inr_iff dict_get_def fromtimestamp_epoch)
qed

theorem missing_departure_epoch_witness:
  "map_of [(''origin'', JStr ''VABB'')] ''filed_departuretime'' = None
   \<and> map_of [(''origin'', JStr ''VABB'')] ''actualdeparturetime'' = None
   \<and> get_flight_details example_env_no_departure (JStr ''AI101'') init_state =
       (JObj [(''origin'', JStr ''VABB'')],
        \<lparr>weather_cache = Map.empty, http_log = [DetailReq (JStr ''AI101'')], saved = None\<rparr>)
   \<and> process_flight example_env_no_departure example_flight ''VIDP'' init_state =
       (Some (example_clouds\<lparr>scheduled_departure := 0, actual_departure := 0\<rparr>),
        \<lparr>weather_cache = [''VABB-VIDP-1970-01-01'' \<mapsto> example_weather],
         http_log = [DetailReq (JStr ''AI101''), WeatherReq (47 / 2) 75 1800], saved = None\<rparr>)
   \<and> scheduled_departure (example_clouds\<lparr>scheduled_departure := 0, actual_departure := 0\<rparr>) = 0
   \<and> actual_departure (example_clouds\<lparr>scheduled_departure := 0, actual_departure := 0\<rparr>) = 0"
proof -
  let ?E = example_env_no_departure
  let ?d = "[(''origin'', JStr ''VABB'')]"
  let ?s1 = "\<lparr>weather_cache = Map.empty, http_log = [DetailReq (JStr ''AI101'')], saved = None\<rparr>"
  let ?s2 = "\<lparr>weather_cache = [''VABB-VIDP-1970-01-01'' \<mapsto> example_weather],
         http_log = [DetailReq (JStr ''AI101''), WeatherReq (47 / 2) 75 1800], saved = None\<rparr>"
  let ?r = "example_clouds\<lparr>scheduled_departure := 0, actual_departure := 0\<rparr>"
  note c = missing_departure_epoch [of example_flight "JStr ''AI101''" ?E init_state ?d ?s1 "JNum 3600" 3600 "''VIDP''"
      example_weather ?s2 ?r]
  have h1: "map_of example_flight ''ident'' = Some (JStr ''AI101'')" by (simp add: example_defs2)
  have h2: "get_flight_details ?E (JStr ''AI101'') init_state = (JObj ?d, ?s1)"
    by (simp add: example_defs2 collector_defs)
  have h3: "map_of ?d ''filed_departuretime'' = None" "map_of ?d ''actualdeparturetime'' = None"
    by simp_all
  have h4: "map_of example_flight ''actualarrivaltime'' = Some (JNum 3600)"
    by (simp add: example_defs2)
  have h5: "fromtimestamp (JNum 3600) = Inr 3600" by (simp add: collector_defs)
  have h6: "get_route_weather ?E (dict_get ?d ''origin'' JNull) (JStr ''VIDP'') (3600 / 2) ?s1 =
      (example_weather, ?s2)"
    by (simp add: example_defs2 collector_defs)
  have h7: "assemble example_flight ''VIDP'' (JObj ?d) 0 example_weather = Inr ?r"
    by (simp add: example_defs2 collector_defs)
  have pf: "process_flight ?E example_flight ''VIDP'' init_state = (Some ?r, ?s2)"
    and sd: "scheduled_departure ?r = 0"
    using c h1 h2 h3 h4 h5 h6 h7 by blast+
  have ad: "actual_departure ?r = 0"
    using c h1 h2 h3 pf by (metis fst_conv)
  show ?thesis using h2 h3 pf sd ad by blast
qed

end
